theory Spec2Isabelle
  imports Complex_Main
begin

section \<open>Data model\<close>

text \<open>
  The stores of the Sequelize models \<^verbatim>\<open>Customer\<close>, \<^verbatim>\<open>Vehicle\<close>, \<^verbatim>\<open>Rental\<close> and
  \<^verbatim>\<open>Maintenance\<close>, restricted to the columns the controllers read or write in the
  operations below. Primary keys (UUIDs) are natural numbers, dates are the millisecond
  timestamps that \<^verbatim>\<open>new Date(...)\<close> yields, finite JavaScript numbers are rationals
  (rounding of IEEE doubles is outside the model), mileages are naturals (the columns
  carry \<^verbatim>\<open>min: 0\<close> and every route checks \<^verbatim>\<open>isInt({ min: 0 })\<close>). The database is
  PostgreSQL (the controllers use \<^verbatim>\<open>Op.iLike\<close>): a \<^verbatim>\<open>DECIMAL(10, 2)\<close> column holds a
  value with two decimals and is read back as its text, an \<^verbatim>\<open>INTEGER\<close> column holds 32
  bits. The column \<^verbatim>\<open>total_amount\<close> of a rental can hold \<^verbatim>\<open>NaN\<close>, which the other
  columns never receive. The text of the generated \<^verbatim>\<open>rental_number\<close> and
  \<^verbatim>\<open>maintenance_number\<close>, which depends on the clock and on \<^verbatim>\<open>Math.random\<close>, is not
  part of the model; the check that \<^verbatim>\<open>rental_number\<close> is not null is. Accents of the
  response messages are dropped.
\<close>

type_synonym uuid = nat
type_synonym date = int

text \<open>A JavaScript number: a finite value or \<^verbatim>\<open>NaN\<close>.\<close>

datatype number = Num rat | NaN

datatype rental_state = Reserved | Confirmed | Active | Completed | Cancelled

datatype vehicle_state = Available | Rented | InMaintenance | Inactive

record customer =
  customer_is_active :: bool

record vehicle =
  vehicle_daily_rate :: rat
  current_mileage :: nat
  last_maintenance_mileage :: "nat option"
  next_maintenance_mileage :: "nat option"
  status :: vehicle_state
  is_active :: bool

record rental =
  rental_id :: uuid
  customer_id :: uuid
  vehicle_id :: uuid
  start_date :: date
  end_date :: date
  actual_return_date :: "date option"
  daily_rate :: rat
  total_days :: int
  subtotal :: rat
  tax_amount :: rat
  additional_charges :: rat
  discount_amount :: rat
  total_amount :: number
  rental_status :: rental_state
  pickup_mileage :: "nat option"
  return_mileage :: "nat option"

datatype maintenance_state = M_scheduled | M_in_progress | M_completed | M_cancelled | M_overdue

datatype priority_level = Low | Medium | High | Critical

record maintenance =
  maintenance_id :: uuid
  maintenance_vehicle_id :: uuid
  scheduled_date :: date
  completed_date :: "date option"
  mileage_at_maintenance :: "nat option"
  maintenance_status :: maintenance_state
  priority :: priority_level

record db =
  customers :: "uuid \<rightharpoonup> customer"
  vehicles :: "uuid \<rightharpoonup> vehicle"
  rentals :: "rental list"
  maintenances :: "maintenance list"

text \<open>The JSON envelope: HTTP status, message and the \<^verbatim>\<open>data\<close> member.\<close>

datatype payload =
  NoData
  | RentalData "rental option"
  | CompletionData rat rat number
  | VehicleData vehicle
  | MaintenanceData "maintenance option"

datatype response = Response nat string payload

fun code :: "response \<Rightarrow> nat" where
  "code (Response c m d) = c"

fun message :: "response \<Rightarrow> string" where
  "message (Response c m d) = m"

fun data :: "response \<Rightarrow> payload" where
  "data (Response c m d) = d"

section \<open>PostgreSQL columns and JavaScript conversions\<close>

text \<open>
  What \<^verbatim>\<open>NUMERIC(10, 2)\<close> keeps of a written value: the value rounded to cents, half
  away from zero; a rounded value of one hundred million or more is refused. An
  \<^verbatim>\<open>INTEGER\<close> above 2147483647 is refused as well. A refused write throws.
\<close>

definition cents :: "rat \<Rightarrow> nat" where
  "cents x = nat \<lfloor>\<bar>x\<bar> * 100 + 1 / 2\<rfloor>"

definition round2 :: "rat \<Rightarrow> rat" where
  "round2 x = (if x < 0 then - (of_nat (cents x) / 100) else of_nat (cents x) / 100)"

definition fits_decimal :: "rat \<Rightarrow> bool" where
  "fits_decimal x \<longleftrightarrow> cents x < 10000000000"

definition int4_max :: nat where
  "int4_max = 2147483647"

definition store_number :: "number \<Rightarrow> number" where
  "store_number n = (case n of NaN \<Rightarrow> NaN | Num x \<Rightarrow> Num (round2 x))"

definition fits_number :: "number \<Rightarrow> bool" where
  "fits_number n = (case n of NaN \<Rightarrow> True | Num x \<Rightarrow> fits_decimal x)"

text \<open>
  The \<^verbatim>\<open>min\<close> validator of Sequelize,
  \<^verbatim>\<open>isNaN(number) || number >= val\<close> on \<^verbatim>\<open>parseFloat\<close> of the value: \<^verbatim>\<open>NaN\<close> passes.
\<close>

definition min_ok :: "rat \<Rightarrow> number \<Rightarrow> bool" where
  "min_ok v n = (case n of NaN \<Rightarrow> True | Num x \<Rightarrow> v \<le> x)"

text \<open>
  The text PostgreSQL returns for a \<^verbatim>\<open>NUMERIC(10, 2)\<close> value, such as \<^verbatim>\<open>200.00\<close>: the
  digits of the whole part, a point, two digits.
\<close>

definition digit_char :: "nat \<Rightarrow> char" where
  "digit_char n = ''0123456789'' ! (n mod 10)"

function digits :: "nat \<Rightarrow> string" where
  "digits n = (if n < 10 then [digit_char n] else digits (n div 10) @ [digit_char n])"
  by pat_completeness auto
termination
  by (relation "measure id") auto

declare digits.simps [simp del]

definition decimal_text :: "rat \<Rightarrow> string" where
  "decimal_text x =
     (if x < 0 \<and> cents x \<noteq> 0 then ''-'' else []) @ digits (cents x div 100) @
     [CHR ''.'', digit_char (cents x div 10), digit_char (cents x)]"

text \<open>
  The text of a finite JavaScript number (\<^verbatim>\<open>Number::toString\<close>) for a value with a
  short decimal expansion, such as \<^verbatim>\<open>150\<close> or \<^verbatim>\<open>150.5\<close>; the exponent form of very
  large and very small numbers is left out.
\<close>

fun fraction_digits :: "nat \<Rightarrow> rat \<Rightarrow> string" where
  "fraction_digits 0 f = []"
| "fraction_digits (Suc k) f =
     (if f = 0 then []
      else digit_char (nat \<lfloor>f * 10\<rfloor>) # fraction_digits k (f * 10 - of_int \<lfloor>f * 10\<rfloor>))"

definition number_text :: "rat \<Rightarrow> string" where
  "number_text x =
     (if x < 0 then ''-'' else []) @ digits (nat \<lfloor>\<bar>x\<bar>\<rfloor>) @
     (if \<bar>x\<bar> = of_int \<lfloor>\<bar>x\<bar>\<rfloor> then []
      else CHR ''.'' # fraction_digits 17 (\<bar>x\<bar> - of_int \<lfloor>\<bar>x\<bar>\<rfloor>))"

text \<open>
  \<^verbatim>\<open>ToNumber\<close> on a text, for decimal literals: an optional sign, digits, and
  optionally a point and digits; the empty text is 0 and every other text is \<^verbatim>\<open>NaN\<close>.
  Exponents, \<^verbatim>\<open>Infinity\<close>, other radices and surrounding blanks do not occur in the
  texts converted here, which are made of digits, points and minus signs.
\<close>

definition is_digit :: "char \<Rightarrow> bool" where
  "is_digit c \<longleftrightarrow> c \<in> set ''0123456789''"

definition digit_value :: "char \<Rightarrow> nat" where
  "digit_value c =
     (case map_of (zip ''0123456789'' [0..<10]) c of
        None \<Rightarrow> 0
      | Some v \<Rightarrow> v)"

definition digits_value :: "string \<Rightarrow> nat" where
  "digits_value s = foldl (\<lambda>n c. 10 * n + digit_value c) 0 s"

definition string_to_number :: "string \<Rightarrow> number" where
  "string_to_number s =
     (let negative = (case s of [] \<Rightarrow> False | c # t \<Rightarrow> c = CHR ''-'');
          unsigned = (case s of
                        [] \<Rightarrow> []
                      | c # t \<Rightarrow> if c = CHR ''-'' \<or> c = CHR ''+'' then t else s);
          whole = takeWhile is_digit unsigned;
          rest = dropWhile is_digit unsigned;
          magnitude =
            (case rest of
               [] \<Rightarrow> if whole = [] then (if s = [] then Num 0 else NaN)
                     else Num (of_nat (digits_value whole))
             | c # fraction \<Rightarrow>
                 if c = CHR ''.'' \<and> list_all is_digit fraction \<and>
                    (whole \<noteq> [] \<or> fraction \<noteq> [])
                 then Num (of_nat (digits_value whole) +
                           of_nat (digits_value fraction) / 10 ^ length fraction)
                 else NaN)
      in case magnitude of NaN \<Rightarrow> NaN | Num x \<Rightarrow> Num (if negative then - x else x))"

text \<open>\<^verbatim>\<open>a - b\<close> on two converted operands.\<close>

definition js_minus :: "number \<Rightarrow> number \<Rightarrow> number" where
  "js_minus a b = (case (a, b) of (Num x, Num y) \<Rightarrow> Num (x - y) | _ \<Rightarrow> NaN)"

section \<open>The persistence layer as the controllers use it\<close>

definition findByPk :: "rental list \<Rightarrow> uuid \<Rightarrow> rental option" where
  "findByPk rs rid = find (\<lambda>r. rental_id r = rid) rs"

text \<open>\<^verbatim>\<open>instance.update(values)\<close> writes the row with the instance's primary key.\<close>

definition Rental_update :: "rental list \<Rightarrow> uuid \<Rightarrow> (rental \<Rightarrow> rental) \<Rightarrow> rental list" where
  "Rental_update rs rid f = map (\<lambda>r. if rental_id r = rid then f r else r) rs"

text \<open>The \<^verbatim>\<open>UUIDV4\<close> default of the primary key: an identifier no stored row has.\<close>

definition fresh_id :: "rental list \<Rightarrow> uuid" where
  "fresh_id rs = Suc (foldr max (map rental_id rs) 0)"

text \<open>
  \<^verbatim>\<open>Rental.create\<close> validates the row first: \<^verbatim>\<open>rental_number\<close> is \<^verbatim>\<open>allowNull: false\<close>
  and is checked as the body gave it, \<^verbatim>\<open>total_days\<close> has \<^verbatim>\<open>min: 1\<close>, the amounts have
  \<^verbatim>\<open>min: 0\<close>. Only then does the \<^verbatim>\<open>beforeCreate\<close> hook write the generated number, and
  the row is inserted with the amounts as PostgreSQL keeps them. A failed validation and a
  refused insert both throw; the model renders the throw as \<open>None\<close>.
\<close>

definition validate_rental :: "string option \<Rightarrow> rental \<Rightarrow> bool" where
  "validate_rental rental_number r \<longleftrightarrow>
     rental_number \<noteq> None \<and>
     1 \<le> total_days r \<and> 0 \<le> daily_rate r \<and> 0 \<le> subtotal r \<and> 0 \<le> tax_amount r \<and>
     0 \<le> additional_charges r \<and> 0 \<le> discount_amount r \<and> min_ok 0 (total_amount r)"

definition insertable :: "rental \<Rightarrow> bool" where
  "insertable r \<longleftrightarrow>
     total_days r \<le> int int4_max \<and> fits_decimal (daily_rate r) \<and> fits_decimal (subtotal r) \<and>
     fits_decimal (tax_amount r) \<and> fits_decimal (additional_charges r) \<and>
     fits_decimal (discount_amount r) \<and> fits_number (total_amount r)"

definition stored :: "rental \<Rightarrow> rental" where
  "stored r =
     r\<lparr> daily_rate := round2 (daily_rate r),
        subtotal := round2 (subtotal r),
        tax_amount := round2 (tax_amount r),
        additional_charges := round2 (additional_charges r),
        discount_amount := round2 (discount_amount r),
        total_amount := store_number (total_amount r) \<rparr>"

definition Rental_create ::
  "rental list \<Rightarrow> string option \<Rightarrow> rental \<Rightarrow> (rental \<times> rental list) option" where
  "Rental_create rs rental_number r =
     (if validate_rental rental_number r \<and> insertable r
      then (let r' = stored (r\<lparr>rental_id := fresh_id rs\<rparr>) in Some (r', rs @ [r']))
      else None)"

text \<open>\<^verbatim>\<open>Op.between\<close> is SQL \<^verbatim>\<open>BETWEEN\<close>: both bounds included.\<close>

definition between :: "date \<Rightarrow> date \<Rightarrow> date \<Rightarrow> bool" where
  "between x lo hi \<longleftrightarrow> lo \<le> x \<and> x \<le> hi"

definition active_states :: "rental_state set" where
  "active_states = {Reserved, Confirmed, Active}"

text \<open>The \<^verbatim>\<open>where\<close> clause of the conflict query of \<^verbatim>\<open>createRental\<close>.\<close>

definition conflict_where :: "uuid \<Rightarrow> date \<Rightarrow> date \<Rightarrow> rental \<Rightarrow> bool" where
  "conflict_where vid s e r \<longleftrightarrow>
     vehicle_id r = vid \<and> rental_status r \<in> active_states \<and>
     (between (start_date r) s e \<or> between (end_date r) s e \<or>
      (start_date r \<le> s \<and> end_date r \<ge> e))"

definition conflictingRentals :: "rental list \<Rightarrow> uuid \<Rightarrow> date \<Rightarrow> date \<Rightarrow> nat" where
  "conflictingRentals rs vid s e = length (filter (conflict_where vid s e) rs)"

section \<open>Rental engine\<close>

text \<open>\<^verbatim>\<open>Math.ceil(ms / (1000 * 60 * 60 * 24))\<close>\<close>

definition ceil_days :: "int \<Rightarrow> int" where
  "ceil_days ms = \<lceil>(of_int ms :: rat) / (1000 * 60 * 60 * 24)\<rceil>"

text \<open>\<^verbatim>\<open>x || 0\<close> on an optional number.\<close>

definition or_zero :: "rat option \<Rightarrow> rat" where
  "or_zero x = (case x of None \<Rightarrow> 0 | Some v \<Rightarrow> v)"

text \<open>
  The body of \<^verbatim>\<open>POST /api/rentals\<close>. The handler spreads the whole body into the row
  it creates, and the documented request schema is the Rental schema itself, so the body
  may carry \<^verbatim>\<open>rental_number\<close> and \<^verbatim>\<open>rental_status\<close>; the columns the handler
  computes are overwritten. The vehicle's \<^verbatim>\<open>daily_rate\<close> is read as a text and
  converted by \<^verbatim>\<open>*\<close> to the value it denotes.
\<close>

record rental_body =
  body_customer_id :: uuid
  body_vehicle_id :: uuid
  body_start_date :: date
  body_end_date :: date
  body_additional_charges :: "rat option"
  body_discount_amount :: "rat option"
  body_rental_number :: "string option"
  body_rental_status :: "rental_state option"

definition internal_error :: response where
  "internal_error = Response 500 ''Error interno del servidor'' NoData"

definition rentalData :: "vehicle \<Rightarrow> rental_body \<Rightarrow> rental" where
  "rentalData vehicle body =
     (let totalDays = ceil_days (body_end_date body - body_start_date body);
          sub = of_int totalDays * vehicle_daily_rate vehicle;
          tax = sub * (19 / 100)
      in \<lparr> rental_id = 0,
           customer_id = body_customer_id body,
           vehicle_id = body_vehicle_id body,
           start_date = body_start_date body,
           end_date = body_end_date body,
           actual_return_date = None,
           daily_rate = vehicle_daily_rate vehicle,
           total_days = totalDays,
           subtotal = sub,
           tax_amount = tax,
           additional_charges = or_zero (body_additional_charges body),
           discount_amount = or_zero (body_discount_amount body),
           total_amount = Num (sub + tax + or_zero (body_additional_charges body)
                               - or_zero (body_discount_amount body)),
           rental_status = (case body_rental_status body of None \<Rightarrow> Reserved | Some s \<Rightarrow> s),
           pickup_mileage = None,
           return_mileage = None \<rparr>)"

definition createRental :: "db \<Rightarrow> rental_body \<Rightarrow> response \<times> db" where
  "createRental d body =
     (case customers d (body_customer_id body) of
        None \<Rightarrow> (Response 400 ''Cliente no encontrado o inactivo'' NoData, d)
      | Some customer \<Rightarrow>
          if \<not> customer_is_active customer
          then (Response 400 ''Cliente no encontrado o inactivo'' NoData, d)
          else
            (case vehicles d (body_vehicle_id body) of
               None \<Rightarrow> (Response 400 ''Vehiculo no disponible'' NoData, d)
             | Some vehicle \<Rightarrow>
                 if \<not> is_active vehicle \<or> status vehicle \<noteq> Available
                 then (Response 400 ''Vehiculo no disponible'' NoData, d)
                 else if conflictingRentals (rentals d) (body_vehicle_id body)
                           (body_start_date body) (body_end_date body) > 0
                 then (Response 400
                         ''El vehiculo ya tiene reservas en las fechas seleccionadas'' NoData, d)
                 else
                   (case Rental_create (rentals d) (body_rental_number body)
                           (rentalData vehicle body) of
                      None \<Rightarrow> (internal_error, d)
                    | Some (rental, rs) \<Rightarrow>
                        (let d' = d\<lparr> rentals := rs,
                                     vehicles := (vehicles d)(body_vehicle_id body \<mapsto>
                                                   vehicle\<lparr>status := Rented\<rparr>) \<rparr>
                         in (Response 201 ''Alquiler creado exitosamente''
                               (RentalData (findByPk (rentals d') (rental_id rental))), d')))))"

text \<open>
  The body of \<^verbatim>\<open>PUT /api/rentals/:id\<close>, with the columns of
  \<^verbatim>\<open>updateRentalValidation\<close> that the model carries. \<^verbatim>\<open>rental.update(updateData)\<close> sets
  the members that are present and validates the columns it writes.
\<close>

record rental_patch =
  patch_start_date :: "date option"
  patch_end_date :: "date option"
  patch_rental_status :: "rental_state option"
  patch_discount_amount :: "rat option"
  patch_additional_charges :: "rat option"

definition apply_patch :: "rental_patch \<Rightarrow> rental \<Rightarrow> rental" where
  "apply_patch p r =
     r\<lparr> start_date := (case patch_start_date p of None \<Rightarrow> start_date r | Some v \<Rightarrow> v),
        end_date := (case patch_end_date p of None \<Rightarrow> end_date r | Some v \<Rightarrow> v),
        rental_status := (case patch_rental_status p of None \<Rightarrow> rental_status r | Some v \<Rightarrow> v),
        discount_amount := (case patch_discount_amount p of None \<Rightarrow> discount_amount r | Some v \<Rightarrow> v),
        additional_charges :=
          (case patch_additional_charges p of None \<Rightarrow> additional_charges r | Some v \<Rightarrow> v) \<rparr>"



text \<open>\<^verbatim>\<open>rental.vehicle.update(values)\<close> on the vehicle included with the rental, if any.\<close>

definition Vehicle_update :: "db \<Rightarrow> uuid \<Rightarrow> (vehicle \<Rightarrow> vehicle) \<Rightarrow> db" where
  "Vehicle_update d vid f =
     (case vehicles d vid of
        None \<Rightarrow> d
      | Some v \<Rightarrow> d\<lparr> vehicles := (vehicles d)(vid \<mapsto> f v) \<rparr>)"

definition cancelRental :: "db \<Rightarrow> uuid \<Rightarrow> response \<times> db" where
  "cancelRental d rid =
     (case findByPk (rentals d) rid of
        None \<Rightarrow> (Response 404 ''Alquiler no encontrado'' NoData, d)
      | Some rental \<Rightarrow>
          if rental_status rental = Completed \<or> rental_status rental = Cancelled
          then (Response 400 ''El alquiler ya esta completado o cancelado'' NoData, d)
          else
            (let d1 = d\<lparr> rentals := Rental_update (rentals d) rid
                                        (\<lambda>r. r\<lparr>rental_status := Cancelled\<rparr>) \<rparr>;
                 d2 = Vehicle_update d1 (vehicle_id rental) (\<lambda>v. v\<lparr>status := Available\<rparr>)
             in (Response 200 ''Alquiler cancelado exitosamente'' NoData, d2)))"


text \<open>
  The body of \<^verbatim>\<open>PATCH /api/rentals/:id/complete\<close>; \<^verbatim>\<open>return_mileage\<close> is required by
  the route, the other two members are optional. The late fee multiplies by
  \<^verbatim>\<open>rental.daily_rate\<close>, a text that \<^verbatim>\<open>*\<close> converts to the value it denotes.
\<close>

record complete_body =
  body_return_mileage :: nat
  body_charges :: "rat option"
  body_actual_return_date :: "date option"

definition lateFees :: "date \<Rightarrow> rental \<Rightarrow> rat" where
  "lateFees returnDate rental =
     (if returnDate > end_date rental
      then of_int (ceil_days (returnDate - end_date rental)) * daily_rate rental * (3 / 2)
      else 0)"

text \<open>
  \<^verbatim>\<open>rental.subtotal + rental.tax_amount + totalAdditionalCharges - rental.discount_amount\<close>:
  the two columns are texts, so the first \<^verbatim>\<open>+\<close> concatenates them and the second
  appends the text of the number; \<^verbatim>\<open>-\<close> converts both of its operands.
\<close>

definition newTotalAmount :: "rental \<Rightarrow> rat \<Rightarrow> number" where
  "newTotalAmount rental totalAdditionalCharges =
     js_minus
       (string_to_number (decimal_text (subtotal rental) @ decimal_text (tax_amount rental) @
                          number_text totalAdditionalCharges))
       (string_to_number (decimal_text (discount_amount rental)))"

text \<open>
  \<^verbatim>\<open>now\<close> is the value of \<^verbatim>\<open>new Date()\<close> when the handler runs. The update validates
  \<^verbatim>\<open>additional_charges\<close> and \<^verbatim>\<open>total_amount\<close> with \<^verbatim>\<open>min: 0\<close> and writes them, with
  \<^verbatim>\<open>return_mileage\<close>, in one statement; a failed validation and a refused write throw
  before anything is written and the handler answers 500.
\<close>

definition completeRental :: "date \<Rightarrow> db \<Rightarrow> uuid \<Rightarrow> complete_body \<Rightarrow> response \<times> db" where
  "completeRental now d rid body =
     (case findByPk (rentals d) rid of
        None \<Rightarrow> (Response 404 ''Alquiler no encontrado'' NoData, d)
      | Some rental \<Rightarrow>
          if rental_status rental \<noteq> Active
          then (Response 400 ''El alquiler debe estar activo para completar'' NoData, d)
          else
            (let returnDate = (case body_actual_return_date body of None \<Rightarrow> now | Some t \<Rightarrow> t);
                 fees = lateFees returnDate rental;
                 totalAdditionalCharges = or_zero (body_charges body) + fees;
                 total = newTotalAmount rental totalAdditionalCharges
             in if \<not> (0 \<le> totalAdditionalCharges \<and> min_ok 0 total \<and>
                       fits_decimal totalAdditionalCharges \<and> fits_number total \<and>
                       body_return_mileage body \<le> int4_max)
                then (internal_error, d)
                else
                  (let d1 = d\<lparr> rentals := Rental_update (rentals d) rid
                                (\<lambda>r. r\<lparr> rental_status := Completed,
                                        actual_return_date := Some returnDate,
                                        return_mileage := Some (body_return_mileage body),
                                        additional_charges := round2 totalAdditionalCharges,
                                        total_amount := store_number total \<rparr>) \<rparr>;
                       d2 = Vehicle_update d1 (vehicle_id rental)
                              (\<lambda>v. v\<lparr> status := Available,
                                      current_mileage :=
                                        (if body_return_mileage body \<noteq> 0
                                         then body_return_mileage body
                                         else current_mileage v) \<rparr>)
                   in (Response 200 ''Alquiler completado exitosamente''
                         (CompletionData fees totalAdditionalCharges total), d2))))"

section \<open>Soft deletes and mileage\<close>

definition deleteCustomer :: "db \<Rightarrow> uuid \<Rightarrow> response \<times> db" where
  "deleteCustomer d cid =
     (case customers d cid of
        None \<Rightarrow> (Response 404 ''Cliente no encontrado'' NoData, d)
      | Some customer \<Rightarrow>
          if length (filter (\<lambda>r. customer_id r = cid \<and> rental_status r \<in> active_states)
                       (rentals d)) > 0
          then (Response 400 ''No se puede eliminar un cliente con alquileres activos'' NoData, d)
          else (Response 200 ''Cliente eliminado exitosamente'' NoData,
                d\<lparr> customers := (customers d)(cid \<mapsto> customer\<lparr>customer_is_active := False\<rparr>) \<rparr>))"

definition deleteVehicle :: "db \<Rightarrow> uuid \<Rightarrow> response \<times> db" where
  "deleteVehicle d vid =
     (case vehicles d vid of
        None \<Rightarrow> (Response 404 ''Vehiculo no encontrado'' NoData, d)
      | Some vehicle \<Rightarrow>
          if length (filter (\<lambda>r. vehicle_id r = vid \<and> rental_status r \<in> active_states)
                       (rentals d)) > 0
          then (Response 400 ''No se puede eliminar un vehiculo con alquileres activos'' NoData, d)
          else (Response 200 ''Vehiculo eliminado exitosamente'' NoData,
                d\<lparr> vehicles := (vehicles d)(vid \<mapsto>
                                  vehicle\<lparr>is_active := False, status := Inactive\<rparr>) \<rparr>))"

text \<open>
  The route admits every integer from 0 on; a value above the range of the \<^verbatim>\<open>INTEGER\<close>
  column makes the update throw, and the handler answers 500.
\<close>

definition updateMileage :: "db \<Rightarrow> uuid \<Rightarrow> nat \<Rightarrow> response \<times> db" where
  "updateMileage d vid mileage =
     (case vehicles d vid of
        None \<Rightarrow> (Response 404 ''Vehiculo no encontrado'' NoData, d)
      | Some vehicle \<Rightarrow>
          if mileage < current_mileage vehicle
          then (Response 400 ''El kilometraje no puede ser menor al actual'' NoData, d)
          else if int4_max < mileage then (internal_error, d)
          else (Response 200 ''Kilometraje actualizado exitosamente''
                  (VehicleData (vehicle\<lparr>current_mileage := mileage\<rparr>)),
                d\<lparr> vehicles := (vehicles d)(vid \<mapsto> vehicle\<lparr>current_mileage := mileage\<rparr>) \<rparr>))"

text \<open>A sequence of \<^verbatim>\<open>PATCH /api/vehicles/:id/mileage\<close> requests, served one after the other.\<close>

fun updateMileage_all :: "db \<Rightarrow> (uuid \<times> nat) list \<Rightarrow> db" where
  "updateMileage_all d [] = d"
| "updateMileage_all d ((vid, mileage) # calls) =
     updateMileage_all (snd (updateMileage d vid mileage)) calls"

section \<open>Maintenance tracker\<close>


text \<open>
  The \<^verbatim>\<open>beforeUpdate\<close> hook of the Maintenance model; \<^verbatim>\<open>today\<close> is the clock when the
  hook runs. The model has no such hook on creation: \<^verbatim>\<open>beforeCreate\<close> only generates
  the maintenance number.
\<close>

definition beforeUpdate :: "date \<Rightarrow> maintenance \<Rightarrow> maintenance" where
  "beforeUpdate today m =
     (if completed_date m \<noteq> None then m\<lparr>maintenance_status := M_completed\<rparr>
      else if scheduled_date m < today \<and> maintenance_status m = M_scheduled
      then m\<lparr>maintenance_status := M_overdue\<rparr>
      else m)"








text \<open>The body of \<^verbatim>\<open>PUT /api/maintenances/:id\<close>: every member is optional.\<close>

record maintenance_patch =
  mpatch_scheduled_date :: "date option"
  mpatch_completed_date :: "date option"
  mpatch_mileage :: "nat option"
  mpatch_status :: "maintenance_state option"
  mpatch_priority :: "priority_level option"

definition apply_mpatch :: "maintenance_patch \<Rightarrow> maintenance \<Rightarrow> maintenance" where
  "apply_mpatch p m =
     m\<lparr> scheduled_date := (case mpatch_scheduled_date p of None \<Rightarrow> scheduled_date m | Some v \<Rightarrow> v),
        completed_date :=
          (case mpatch_completed_date p of None \<Rightarrow> completed_date m | Some v \<Rightarrow> Some v),
        mileage_at_maintenance :=
          (case mpatch_mileage p of None \<Rightarrow> mileage_at_maintenance m | Some v \<Rightarrow> Some v),
        maintenance_status :=
          (case mpatch_status p of None \<Rightarrow> maintenance_status m | Some v \<Rightarrow> v),
        priority := (case mpatch_priority p of None \<Rightarrow> priority m | Some v \<Rightarrow> v) \<rparr>"


section \<open>Specification-side notions\<close>

text \<open>
  The conflict condition in the words of the specification: an existing rental of the
  vehicle in a reserving state that starts inside the requested interval, ends inside it,
  or spans it, bounds included.
\<close>

definition overlaps_spec :: "rental \<Rightarrow> date \<Rightarrow> date \<Rightarrow> bool" where
  "overlaps_spec r s e \<longleftrightarrow>
     (s \<le> start_date r \<and> start_date r \<le> e) \<or>
     (s \<le> end_date r \<and> end_date r \<le> e) \<or>
     (start_date r \<le> s \<and> e \<le> end_date r)"

definition has_overlapping_rental :: "db \<Rightarrow> uuid \<Rightarrow> date \<Rightarrow> date \<Rightarrow> bool" where
  "has_overlapping_rental d vid s e \<longleftrightarrow>
     (\<exists>r \<in> set (rentals d).
        vehicle_id r = vid \<and> rental_status r \<in> {Reserved, Confirmed, Active} \<and>
        overlaps_spec r s e)"







section \<open>Sample stores and requests\<close>

text \<open>
  The scenario of the specification: vehicle 7 with a daily rate of 50, customer 1, and a
  rental from 2024-01-01 to 2024-01-05 (timestamps in milliseconds, UTC midnight).
\<close>

definition jan01 :: date where "jan01 = 1704067200000"
definition jan03 :: date where "jan03 = 1704240000000"
definition jan04 :: date where "jan04 = 1704326400000"
definition jan05 :: date where "jan05 = 1704412800000"
definition jan07 :: date where "jan07 = 1704585600000"

definition sample_vehicle :: vehicle where
  "sample_vehicle =
     \<lparr> vehicle_daily_rate = 50, current_mileage = 1000, last_maintenance_mileage = Some 0,
       next_maintenance_mileage = None, status = Available, is_active = True \<rparr>"

definition sample_db :: db where
  "sample_db =
     \<lparr> customers = [1 \<mapsto> \<lparr>customer_is_active = True\<rparr>],
       vehicles = [7 \<mapsto> sample_vehicle],
       rentals = [],
       maintenances = [] \<rparr>"

definition sample_body :: rental_body where
  "sample_body =
     \<lparr> body_customer_id = 1, body_vehicle_id = 7, body_start_date = jan01,
       body_end_date = jan05, body_additional_charges = None, body_discount_amount = None,
       body_rental_number = None, body_rental_status = None \<rparr>"

text \<open>The same request with a \<^verbatim>\<open>rental_number\<close> in its body.\<close>

definition numbered_body :: rental_body where
  "numbered_body = sample_body\<lparr> body_rental_number := Some ''RNT-20240101-001'' \<rparr>"

definition sample_rental :: rental where
  "sample_rental =
     \<lparr> rental_id = 1, customer_id = 1, vehicle_id = 7, start_date = jan01, end_date = jan05,
       actual_return_date = None, daily_rate = 50, total_days = 4, subtotal = 200,
       tax_amount = 38, additional_charges = 0, discount_amount = 0, total_amount = Num 238,
       rental_status = Reserved, pickup_mileage = None, return_mileage = None \<rparr>"

text \<open>The same store holding the rental in a given state, the vehicle in a given status.\<close>

definition booked_db :: "rental_state \<Rightarrow> vehicle_state \<Rightarrow> db" where
  "booked_db s vs =
     \<lparr> customers = [1 \<mapsto> \<lparr>customer_is_active = True\<rparr>],
       vehicles = [7 \<mapsto> sample_vehicle\<lparr>status := vs\<rparr>],
       rentals = [sample_rental\<lparr>rental_status := s\<rparr>],
       maintenances = [] \<rparr>"

definition second_body :: rental_body where
  "second_body = sample_body\<lparr> body_start_date := jan03, body_end_date := jan04 \<rparr>"

definition late_return :: complete_body where
  "late_return =
     \<lparr> body_return_mileage = 1200, body_charges = None, body_actual_return_date = Some jan07 \<rparr>"





section \<open>Arithmetic of days and the conflict query\<close>

lemma conflictingRentals_pos_iff:
  "0 < conflictingRentals (rentals d) vid s e \<longleftrightarrow> has_overlapping_rental d vid s e"
  by (auto simp: conflictingRentals_def has_overlapping_rental_def conflict_where_def
      overlaps_spec_def between_def active_states_def filter_empty_conv)

lemma ceil_days_div: "ceil_days ms = - ((- ms) div 86400000)"
proof -
  have "\<lfloor>(of_int (- ms) :: rat) / of_int 86400000\<rfloor> = (- ms) div 86400000"
    by (rule floor_divide_of_int_eq)
  then show ?thesis
    by (simp add: ceil_days_def ceiling_def)
qed

lemma ceil_days_pos:
  assumes "0 < ms"
  shows "1 \<le> ceil_days ms"
proof -
  have "(- ms) div 86400000 < 0"
    using assms by (intro div_neg_pos_less0) simp_all
  then show ?thesis
    unfolding ceil_days_div by linarith
qed

lemma ceil_days_nonpos:
  assumes "ms \<le> 0"
  shows "ceil_days ms \<le> 0"
proof -
  have "0 \<le> (- ms) div 86400000"
    using assms by (simp add: pos_imp_zdiv_nonneg_iff)
  then show ?thesis
    unfolding ceil_days_div by linarith
qed

lemma floor_numeral_quotient: "\<lfloor>(numeral a :: rat) / numeral b\<rfloor> = numeral a div numeral b"
  using floor_divide_of_int_eq [of "numeral a" "numeral b", where ?'a = rat] by simp


section \<open>Texts of numbers\<close>

lemma is_digit_digit_char: "is_digit (digit_char n)"
proof -
  have "n mod 10 < length ''0123456789''" by simp
  then show ?thesis
    unfolding is_digit_def digit_char_def by (rule nth_mem)
qed

lemma digits_all_digit: "list_all is_digit (digits n)"
  by (induction n rule: digits.induct) (subst digits.simps, simp add: is_digit_digit_char)

lemma digits_not_Nil: "digits n \<noteq> []"
  by (subst digits.simps) simp

lemma not_is_digit_marks: "\<not> is_digit CHR ''.''" "\<not> is_digit CHR ''-''" "\<not> is_digit CHR ''+''"
  by (simp_all add: is_digit_def)

lemma two_points_NaN:
  assumes "sign_text = [] \<or> sign_text = ''-''" and "list_all is_digit w" and "w \<noteq> []"
    and "CHR ''.'' \<in> set f"
  shows "string_to_number (sign_text @ w @ CHR ''.'' # f) = NaN"
proof -
  obtain c w' where w: "w = c # w'" using assms(3) by (cases w) auto
  have c: "is_digit c" using assms(2) w by simp
  then have cm: "c \<noteq> CHR ''-''" "c \<noteq> CHR ''+''" using not_is_digit_marks by auto
  have unsigned: "(case sign_text @ w @ CHR ''.'' # f of [] \<Rightarrow> []
      | a # t \<Rightarrow> if a = CHR ''-'' \<or> a = CHR ''+'' then t else sign_text @ w @ CHR ''.'' # f) = w @ CHR ''.'' # f"
    using assms(1) w cm by auto
  have tw: "takeWhile is_digit (w @ CHR ''.'' # f) = w"
    using assms(2) not_is_digit_marks(1) by (simp add: takeWhile_append2 list_all_iff)
  have dw: "dropWhile is_digit (w @ CHR ''.'' # f) = CHR ''.'' # f"
    using assms(2) not_is_digit_marks(1) by (simp add: dropWhile_append2 list_all_iff)
  have nf: "\<not> list_all is_digit f"
    using assms(4) not_is_digit_marks(1) by (auto simp: list_all_iff)
  show ?thesis
    unfolding string_to_number_def unsigned Let_def tw dw using nf by simp
qed

lemma decimal_text_shape:
  "\<exists>sign_text w a b. decimal_text x = sign_text @ w @ [CHR ''.'', a, b] \<and>
      (sign_text = [] \<or> sign_text = ''-'') \<and> list_all is_digit w \<and> w \<noteq> []"
proof (intro exI conjI)
  show "decimal_text x =
          (if x < 0 \<and> cents x \<noteq> 0 then ''-'' else []) @ digits (cents x div 100) @
          [CHR ''.'', digit_char (cents x div 10), digit_char (cents x)]"
    by (simp only: decimal_text_def)
  show "(if x < 0 \<and> cents x \<noteq> 0 then ''-'' else []) = [] \<or>
        (if x < 0 \<and> cents x \<noteq> 0 then ''-'' else []) = ''-''"
    by simp
  show "list_all is_digit (digits (cents x div 100))"
    by (rule digits_all_digit)
  show "digits (cents x div 100) \<noteq> []"
    by (rule digits_not_Nil)
qed

lemma concatenated_decimals_NaN:
  "string_to_number (decimal_text x @ decimal_text y @ t) = NaN"
proof -
  obtain sign_text w a b where x: "decimal_text x = sign_text @ w @ [CHR ''.'', a, b]"
    "sign_text = [] \<or> sign_text = ''-''" "list_all is_digit w" "w \<noteq> []"
    using decimal_text_shape by blast
  obtain sign_text' w' a' b' where y: "decimal_text y = sign_text' @ w' @ [CHR ''.'', a', b']"
    using decimal_text_shape by blast
  have eq: "decimal_text x @ decimal_text y @ t =
          sign_text @ w @ CHR ''.'' # ([a, b] @ sign_text' @ w' @ [CHR ''.'', a', b'] @ t)"
    by (simp add: x(1) y)
  show ?thesis
    unfolding eq by (rule two_points_NaN [OF x(2) x(3) x(4)]) simp
qed


lemma newTotalAmount_NaN: "newTotalAmount rental charges = NaN"
  by (simp add: newTotalAmount_def concatenated_decimals_NaN js_minus_def)

text \<open>
  Converting the text of a stored value gives the value back, which is what \<^verbatim>\<open>*\<close> does
  with the \<^verbatim>\<open>daily_rate\<close> columns.
\<close>

lemma digit_value_digit_char: "digit_value (digit_char n) = n mod 10"
proof -
  have "map_of (zip ''0123456789'' [0..<10]) (''0123456789'' ! (n mod 10)) = Some ([0..<10] ! (n mod 10))"
    by (rule map_of_zip_nth) simp_all
  then show ?thesis
    by (simp add: digit_value_def digit_char_def)
qed

lemma digits_value_snoc: "digits_value (s @ [c]) = 10 * digits_value s + digit_value c"
  by (simp add: digits_value_def)

lemma digits_value_digits: "digits_value (digits n) = n"
proof (induction n rule: digits.induct)
  case (1 n)
  show ?case
  proof (cases "n < 10")
    case True
    then show ?thesis
      by (subst digits.simps) (simp add: digits_value_def digit_value_digit_char)
  next
    case False
    with "1" have "digits_value (digits (n div 10)) = n div 10" by simp
    with False show ?thesis
      by (subst digits.simps) (simp add: digits_value_snoc digit_value_digit_char)
  qed
qed

lemma unsigned_decimal:
  assumes "list_all is_digit w" and "w \<noteq> []" and "list_all is_digit f"
  shows "string_to_number (w @ CHR ''.'' # f) =
           Num (of_nat (digits_value w) + of_nat (digits_value f) / 10 ^ length f)"
    and "string_to_number (CHR ''-'' # w @ CHR ''.'' # f) =
           Num (- (of_nat (digits_value w) + of_nat (digits_value f) / 10 ^ length f))"
proof -
  obtain c w' where w: "w = c # w'" using assms(2) by (cases w) auto
  have "is_digit c" using assms(1) w by simp
  then have cm: "c \<noteq> CHR ''-''" "c \<noteq> CHR ''+''" using not_is_digit_marks by auto
  have tw: "takeWhile is_digit (w @ CHR ''.'' # f) = w"
    using assms(1) not_is_digit_marks(1) by (simp add: takeWhile_append2 list_all_iff)
  have dw: "dropWhile is_digit (w @ CHR ''.'' # f) = CHR ''.'' # f"
    using assms(1) not_is_digit_marks(1) by (simp add: dropWhile_append2 list_all_iff)
  have u1: "(case w @ CHR ''.'' # f of [] \<Rightarrow> []
      | a # t \<Rightarrow> if a = CHR ''-'' \<or> a = CHR ''+'' then t else w @ CHR ''.'' # f) = w @ CHR ''.'' # f"
    using w cm by simp
  have n1: "(case w @ CHR ''.'' # f of [] \<Rightarrow> False | a # t \<Rightarrow> a = CHR ''-'') = False"
    using w cm by simp
  show "string_to_number (w @ CHR ''.'' # f) =
           Num (of_nat (digits_value w) + of_nat (digits_value f) / 10 ^ length f)"
    unfolding string_to_number_def u1 n1 Let_def tw dw using assms(2,3) by simp
  show "string_to_number (CHR ''-'' # w @ CHR ''.'' # f) =
           Num (- (of_nat (digits_value w) + of_nat (digits_value f) / 10 ^ length f))"
    unfolding string_to_number_def using assms(2,3) by (simp add: Let_def tw dw)
qed

lemma cents_low: "digits_value [digit_char (c div 10), digit_char c] = c mod 100"
proof -
  have "digits_value [digit_char (c div 10), digit_char c] = 10 * (c div 10 mod 10) + c mod 10"
    by (simp add: digits_value_def digit_value_digit_char)
  also have "\<dots> = c mod 100"
    using mod_mult2_eq [of c 10 10] by simp
  finally show ?thesis .
qed

lemma cents_whole: "(of_nat c :: rat) = of_nat (c div 100) * 100 + of_nat (c mod 100)"
proof -
  have "(of_nat (c div 100 * 100 + c mod 100) :: rat) = of_nat c"
    by (simp only: div_mult_mod_eq)
  then show ?thesis
    by (simp only: of_nat_add of_nat_mult of_nat_numeral)
qed

lemma cents_split:
  "(of_nat (c div 100) :: rat) +
     of_nat (digits_value [digit_char (c div 10), digit_char c]) / 10 ^ 2 = of_nat c / 100"
proof -
  have "(of_nat (c div 100) :: rat) + of_nat (c mod 100) / 10 ^ 2 =
          (of_nat (c div 100) * 100 + of_nat (c mod 100)) / 100"
    by (simp add: add_divide_distrib)
  also have "\<dots> = of_nat c / 100"
    by (simp only: cents_whole [symmetric])
  finally show ?thesis
    by (simp only: cents_low)
qed

lemma decimal_text_read_back: "string_to_number (decimal_text x) = Num (round2 x)"
proof -
  let ?w = "digits (cents x div 100)"
  let ?f = "[digit_char (cents x div 10), digit_char (cents x)]"
  have w: "list_all is_digit ?w" "?w \<noteq> []" and f: "list_all is_digit ?f"
    by (simp_all add: digits_all_digit digits_not_Nil is_digit_digit_char)
  have "(of_nat (cents x div 100) :: rat) + of_nat (digits_value ?f) / 10 ^ 2 =
          of_nat (cents x) / 100"
    by (rule cents_split)
  then have v: "(of_nat (digits_value ?w) :: rat) + of_nat (digits_value ?f) / 10 ^ length ?f =
             of_nat (cents x) / 100"
    by (simp add: digits_value_digits)
  show ?thesis
  proof (cases "x < 0 \<and> cents x \<noteq> 0")
    case True
    then have t: "decimal_text x = CHR ''-'' # ?w @ CHR ''.'' # ?f"
      by (simp add: decimal_text_def)
    have "string_to_number (decimal_text x) =
            Num (- (of_nat (digits_value ?w) + of_nat (digits_value ?f) / 10 ^ length ?f))"
      unfolding t by (rule unsigned_decimal(2) [OF w f])
    also have "\<dots> = Num (- (of_nat (cents x) / 100))"
      by (simp only: v)
    also have "\<dots> = Num (round2 x)"
      using True by (simp add: round2_def)
    finally show ?thesis .
  next
    case False
    then have t: "decimal_text x = ?w @ CHR ''.'' # ?f"
      by (simp add: decimal_text_def)
    have "string_to_number (decimal_text x) =
            Num (of_nat (digits_value ?w) + of_nat (digits_value ?f) / 10 ^ length ?f)"
      unfolding t by (rule unsigned_decimal(1) [OF w f])
    also have "\<dots> = Num (of_nat (cents x) / 100)"
      by (simp only: v)
    also have "\<dots> = Num (round2 x)"
      using False by (auto simp: round2_def)
    finally show ?thesis .
  qed
qed

section \<open>The conflict check\<close>

text \<open>
  Claim C1. When the vehicle of a \<^verbatim>\<open>createRental\<close> request has a rental in state
  reserved, confirmed or active that starts inside the requested interval, ends inside it
  or spans it (bounds included), the request is answered with status 400 and the store is
  left as it was. The handler answers with the overlap message exactly when the customer
  and vehicle guards, which come first, let the request through and such a rental
  exists; so without one the conflict check passes, and a request that passes the
  guards and is accepted by \<^verbatim>\<open>Rental.create\<close> is answered 201.
\<close>

theorem createRental_conflict_check:
  "(has_overlapping_rental d (body_vehicle_id body) (body_start_date body) (body_end_date body) \<longrightarrow>
      code (fst (createRental d body)) = 400 \<and> snd (createRental d body) = d) \<and>
   (fst (createRental d body) =
      Response 400 ''El vehiculo ya tiene reservas en las fechas seleccionadas'' NoData \<longleftrightarrow>
    (\<exists>customer vehicle.
        customers d (body_customer_id body) = Some customer \<and> customer_is_active customer \<and>
        vehicles d (body_vehicle_id body) = Some vehicle \<and> is_active vehicle \<and>
        status vehicle = Available) \<and>
    has_overlapping_rental d (body_vehicle_id body) (body_start_date body) (body_end_date body)) \<and>
   (\<forall>customer vehicle.
      customers d (body_customer_id body) = Some customer \<and> customer_is_active customer \<and>
      vehicles d (body_vehicle_id body) = Some vehicle \<and> is_active vehicle \<and>
      status vehicle = Available \<and>
      \<not> has_overlapping_rental d (body_vehicle_id body) (body_start_date body)
          (body_end_date body) \<and>
      Rental_create (rentals d) (body_rental_number body) (rentalData vehicle body) \<noteq> None \<longrightarrow>
      code (fst (createRental d body)) = 201)"
proof (intro conjI impI allI)
  assume ov: "has_overlapping_rental d (body_vehicle_id body) (body_start_date body) (body_end_date body)"
  then have pos: "0 < conflictingRentals (rentals d) (body_vehicle_id body) (body_start_date body) (body_end_date body)"
    by (simp only: conflictingRentals_pos_iff)
  show "code (fst (createRental d body)) = 400"
    using pos by (simp add: createRental_def split: option.splits)
  show "snd (createRental d body) = d"
    using pos by (simp add: createRental_def split: option.splits)
next
  have pos: "0 < conflictingRentals (rentals d) (body_vehicle_id body) (body_start_date body)
                 (body_end_date body) \<longleftrightarrow>
             has_overlapping_rental d (body_vehicle_id body) (body_start_date body)
                 (body_end_date body)"
    by (rule conflictingRentals_pos_iff)
  show "fst (createRental d body) =
      Response 400 ''El vehiculo ya tiene reservas en las fechas seleccionadas'' NoData \<longleftrightarrow>
    (\<exists>customer vehicle.
        customers d (body_customer_id body) = Some customer \<and> customer_is_active customer \<and>
        vehicles d (body_vehicle_id body) = Some vehicle \<and> is_active vehicle \<and>
        status vehicle = Available) \<and>
    has_overlapping_rental d (body_vehicle_id body) (body_start_date body) (body_end_date body)"
    unfolding pos [symmetric]
    by (auto simp: createRental_def internal_error_def Let_def
        split: option.splits if_splits prod.splits)
next
  fix customer vehicle
  assume a: "customers d (body_customer_id body) = Some customer \<and> customer_is_active customer \<and>
      vehicles d (body_vehicle_id body) = Some vehicle \<and> is_active vehicle \<and>
      status vehicle = Available \<and>
      \<not> has_overlapping_rental d (body_vehicle_id body) (body_start_date body)
          (body_end_date body) \<and>
      Rental_create (rentals d) (body_rental_number body) (rentalData vehicle body) \<noteq> None"
  then have "\<not> 0 < conflictingRentals (rentals d) (body_vehicle_id body)
                    (body_start_date body) (body_end_date body)"
    by (simp add: conflictingRentals_pos_iff)
  with a show "code (fst (createRental d body)) = 201"
    by (auto simp: createRental_def Let_def split: option.splits)
qed

theorem createRental_conflict_check_witness:
  "has_overlapping_rental (booked_db Reserved Available) 7 jan03 jan04 \<and>
   createRental (booked_db Reserved Available) second_body =
     (Response 400 ''El vehiculo ya tiene reservas en las fechas seleccionadas'' NoData,
      booked_db Reserved Available) \<and>
   \<not> has_overlapping_rental sample_db 7 jan01 jan05 \<and>
   fst (createRental sample_db numbered_body) \<noteq>
     Response 400 ''El vehiculo ya tiene reservas en las fechas seleccionadas'' NoData \<and>
   code (fst (createRental sample_db numbered_body)) = 201"
proof -
  have a: "has_overlapping_rental (booked_db Reserved Available) 7 jan03 jan04"
    by (simp add: has_overlapping_rental_def overlaps_spec_def booked_db_def sample_rental_def
        jan01_def jan03_def jan04_def jan05_def)
  have b: "\<not> has_overlapping_rental sample_db 7 jan01 jan05"
    by (simp add: has_overlapping_rental_def sample_db_def)
  have c: "body_vehicle_id second_body = 7" "body_start_date second_body = jan03"
     "body_end_date second_body = jan04" "body_customer_id second_body = 1"
     "body_vehicle_id numbered_body = 7" "body_start_date numbered_body = jan01"
     "body_end_date numbered_body = jan05" "body_customer_id numbered_body = 1"
    by (simp_all add: second_body_def numbered_body_def sample_body_def)
  have d: "customers (booked_db Reserved Available) 1 = Some \<lparr>customer_is_active = True\<rparr>"
     "vehicles (booked_db Reserved Available) 7 = Some (sample_vehicle\<lparr>status := Available\<rparr>)"
     "customers sample_db 1 = Some \<lparr>customer_is_active = True\<rparr>"
     "vehicles sample_db 7 = Some sample_vehicle"
     "is_active sample_vehicle" "status sample_vehicle = Available"
    by (simp_all add: booked_db_def sample_db_def sample_vehicle_def)
  have e: "Rental_create (rentals sample_db) (body_rental_number numbered_body)
             (rentalData sample_vehicle numbered_body) \<noteq> None"
    by (simp add: Rental_create_def Let_def rentalData_def validate_rental_def
      insertable_def fits_decimal_def fits_number_def min_ok_def cents_def int4_max_def
      floor_numeral_quotient ceil_days_div or_zero_def sample_db_def
      numbered_body_def sample_body_def sample_vehicle_def jan01_def jan05_def)
  from createRental_conflict_check [of "booked_db Reserved Available" second_body] a c d
  have "fst (createRental (booked_db Reserved Available) second_body) =
            Response 400 ''El vehiculo ya tiene reservas en las fechas seleccionadas'' NoData"
     and "snd (createRental (booked_db Reserved Available) second_body) = booked_db Reserved Available"
    by simp_all
  then have f: "createRental (booked_db Reserved Available) second_body =
     (Response 400 ''El vehiculo ya tiene reservas en las fechas seleccionadas'' NoData,
      booked_db Reserved Available)"
    by (simp add: prod_eq_iff)
  from createRental_conflict_check [of sample_db numbered_body] b c d e
  have "fst (createRental sample_db numbered_body) \<noteq>
     Response 400 ''El vehiculo ya tiene reservas en las fechas seleccionadas'' NoData"
    and "code (fst (createRental sample_db numbered_body)) = 201"
    by simp_all
  with a b f show ?thesis by simp
qed

section \<open>Creating a rental\<close>

lemma rental_id_le_foldr_max: "r \<in> set rs \<Longrightarrow> rental_id r \<le> foldr max (map rental_id rs) 0"
  by (induction rs) (auto simp: max_def)

lemma fresh_id_not_stored: "r \<in> set rs \<Longrightarrow> rental_id r \<noteq> fresh_id rs"
  using rental_id_le_foldr_max [of r rs] by (simp add: fresh_id_def)

lemma findByPk_append:
  "findByPk (rs @ rs') rid = (case findByPk rs rid of None \<Rightarrow> findByPk rs' rid | Some r \<Rightarrow> Some r)"
  by (induction rs) (simp_all add: findByPk_def)

lemma findByPk_None_iff: "findByPk rs rid = None \<longleftrightarrow> (\<forall>r \<in> set rs. rental_id r \<noteq> rid)"
  by (auto simp: findByPk_def find_None_iff)

lemma findByPk_created:
  "findByPk (rs @ [r\<lparr>rental_id := fresh_id rs\<rparr>]) (fresh_id rs) = Some (r\<lparr>rental_id := fresh_id rs\<rparr>)"
proof -
  have "findByPk rs (fresh_id rs) = None"
    using fresh_id_not_stored by (auto simp: findByPk_None_iff)
  then show ?thesis
    by (simp add: findByPk_append) (simp add: findByPk_def)
qed

lemma findByPk_kept:
  "findByPk rs rid = Some r \<Longrightarrow> findByPk (rs @ rs') rid = Some r"
  by (simp add: findByPk_append)


lemma rental_id_stored [simp]: "rental_id (stored r) = rental_id r"
  by (simp add: stored_def)

text \<open>
  The sample request with a \<^verbatim>\<open>rental_number\<close> in its body is accepted: four days at 50
  give subtotal 200, tax 38 and total 238, the status is reserved and the vehicle is
  rented.
\<close>

lemma createRental_numbered_sample:
  "createRental sample_db numbered_body =
     (Response 201 ''Alquiler creado exitosamente'' (RentalData (Some sample_rental)),
      sample_db\<lparr> rentals := [sample_rental],
                 vehicles := (vehicles sample_db)(7 \<mapsto> sample_vehicle\<lparr>status := Rented\<rparr>) \<rparr>)"
  by (simp add: createRental_def Rental_create_def Let_def rentalData_def validate_rental_def
      insertable_def stored_def fits_decimal_def fits_number_def store_number_def min_ok_def
      round2_def cents_def int4_max_def floor_numeral_quotient
      findByPk_def fresh_id_def conflictingRentals_def ceil_days_div or_zero_def sample_db_def
      numbered_body_def sample_body_def sample_vehicle_def sample_rental_def jan01_def jan05_def)

text \<open>
  Claim C6 asks for a client error when the start date is not before the end date.
  Neither the route nor the handler compares the two dates. With the other guards passed
  the handler computes \<^verbatim>\<open>total_days\<close> \<open>\<le> 0\<close>, \<^verbatim>\<open>Rental.create\<close> throws on the
  validator \<^verbatim>\<open>min: 1\<close>, and the \<^verbatim>\<open>catch\<close> of the handler answers 500 with the generic
  message; nothing is written. This holds whether or not the body carries a
  \<^verbatim>\<open>rental_number\<close>.
\<close>

theorem createRental_dates_not_ordered:
  assumes customer: "customers d (body_customer_id body) = Some customer" "customer_is_active customer"
    and vehicle: "vehicles d (body_vehicle_id body) = Some vehicle" "is_active vehicle"
      "status vehicle = Available"
    and dates: "\<not> body_start_date body < body_end_date body"
    and free: "\<not> has_overlapping_rental d (body_vehicle_id body) (body_start_date body)
                 (body_end_date body)"
  shows "createRental d body = (Response 500 ''Error interno del servidor'' NoData, d)"
proof -
  have "ceil_days (body_end_date body - body_start_date body) \<le> 0"
    using dates by (intro ceil_days_nonpos) simp
  then have invalid: "\<not> validate_rental (body_rental_number body) (rentalData vehicle body)"
    by (simp add: validate_rental_def rentalData_def Let_def)
  have none: "conflictingRentals (rentals d) (body_vehicle_id body) (body_start_date body)
                (body_end_date body) = 0"
    using free conflictingRentals_pos_iff [of d "body_vehicle_id body"
        "body_start_date body" "body_end_date body"] by simp
  show ?thesis
    using customer vehicle none invalid
    by (simp add: createRental_def Rental_create_def internal_error_def)
qed

theorem createRental_dates_not_ordered_witness:
  "\<not> body_start_date (numbered_body\<lparr>body_end_date := jan01\<rparr>)
       < body_end_date (numbered_body\<lparr>body_end_date := jan01\<rparr>) \<and>
   createRental sample_db (numbered_body\<lparr>body_end_date := jan01\<rparr>) =
     (Response 500 ''Error interno del servidor'' NoData, sample_db)"
proof -
  have pre: "customers sample_db (body_customer_id (numbered_body\<lparr>body_end_date := jan01\<rparr>)) =
               Some \<lparr>customer_is_active = True\<rparr>"
    "customer_is_active \<lparr>customer_is_active = True\<rparr>"
    "vehicles sample_db (body_vehicle_id (numbered_body\<lparr>body_end_date := jan01\<rparr>)) = Some sample_vehicle"
    "is_active sample_vehicle" "status sample_vehicle = Available"
    "\<not> body_start_date (numbered_body\<lparr>body_end_date := jan01\<rparr>)
       < body_end_date (numbered_body\<lparr>body_end_date := jan01\<rparr>)"
    "\<not> has_overlapping_rental sample_db (body_vehicle_id (numbered_body\<lparr>body_end_date := jan01\<rparr>))
         (body_start_date (numbered_body\<lparr>body_end_date := jan01\<rparr>))
         (body_end_date (numbered_body\<lparr>body_end_date := jan01\<rparr>))"
    by (simp_all add: has_overlapping_rental_def sample_db_def numbered_body_def
        sample_body_def sample_vehicle_def jan01_def)
  from createRental_dates_not_ordered [OF pre] pre(6) show ?thesis by simp
qed

text \<open>
  Claim C2 describes the rental that \<^verbatim>\<open>createRental\<close> creates for a request that passes
  the preconditions and the conflict check. The handler does not create it: the model
  declares \<^verbatim>\<open>rental_number\<close> with \<^verbatim>\<open>allowNull: false\<close> and fills it in the
  \<^verbatim>\<open>beforeCreate\<close> hook, which runs after the validation, so for every body without a
  \<^verbatim>\<open>rental_number\<close> of its own, whatever its dates and amounts, \<^verbatim>\<open>Rental.create\<close>
  throws, the handler answers 500 and nothing is written. (The Maintenance model
  declares its generated number with \<^verbatim>\<open>allowNull: true\<close>.)
\<close>

theorem createRental_needs_rental_number:
  assumes customer: "customers d (body_customer_id body) = Some customer" "customer_is_active customer"
    and vehicle: "vehicles d (body_vehicle_id body) = Some vehicle" "is_active vehicle"
      "status vehicle = Available"
    and free: "\<not> has_overlapping_rental d (body_vehicle_id body) (body_start_date body)
                 (body_end_date body)"
    and number: "body_rental_number body = None"
  shows "createRental d body = (Response 500 ''Error interno del servidor'' NoData, d)"
proof -
  have invalid: "\<not> validate_rental (body_rental_number body) (rentalData vehicle body)"
    using number by (simp add: validate_rental_def)
  have none: "conflictingRentals (rentals d) (body_vehicle_id body) (body_start_date body)
                (body_end_date body) = 0"
    using free conflictingRentals_pos_iff [of d "body_vehicle_id body"
        "body_start_date body" "body_end_date body"] by simp
  show ?thesis
    using customer vehicle none invalid
    by (simp add: createRental_def Rental_create_def internal_error_def)
qed

theorem createRental_needs_rental_number_witness:
  "body_rental_number sample_body = None \<and>
   body_start_date sample_body < body_end_date sample_body \<and>
   createRental sample_db sample_body =
     (Response 500 ''Error interno del servidor'' NoData, sample_db)"
proof -
  have pre: "customers sample_db (body_customer_id sample_body) = Some \<lparr>customer_is_active = True\<rparr>"
    "customer_is_active \<lparr>customer_is_active = True\<rparr>"
    "vehicles sample_db (body_vehicle_id sample_body) = Some sample_vehicle"
    "is_active sample_vehicle" "status sample_vehicle = Available"
    "\<not> has_overlapping_rental sample_db (body_vehicle_id sample_body)
         (body_start_date sample_body) (body_end_date sample_body)"
    "body_rental_number sample_body = None"
    by (simp_all add: has_overlapping_rental_def sample_db_def sample_body_def sample_vehicle_def)
  have "body_start_date sample_body < body_end_date sample_body"
    by (simp add: sample_body_def jan01_def jan05_def)
  with createRental_needs_rental_number [OF pre] pre(7) show ?thesis by simp
qed

section \<open>Completing a rental\<close>

lemma findByPk_Rental_update:
  assumes "\<And>r. rental_id (f r) = rental_id r"
  shows "findByPk (Rental_update rs rid f) rid' =
           (if rid' = rid then map_option f (findByPk rs rid') else findByPk rs rid')"
  using assms by (induction rs) (auto simp: findByPk_def Rental_update_def)

lemma Vehicle_update_Some:
  "vehicles d vid = Some v \<Longrightarrow> Vehicle_update d vid f = d\<lparr> vehicles := (vehicles d)(vid \<mapsto> f v) \<rparr>"
  by (simp add: Vehicle_update_def)

lemma rentals_Vehicle_update [simp]: "rentals (Vehicle_update d vid f) = rentals d"
  by (simp add: Vehicle_update_def split: option.splits)


text \<open>
  Claim C3 asks for the total to be recomputed as subtotal plus tax plus the new
  additional charges minus the discount. The handler computes the late fee and the
  charges as the claim says, but adds to the texts of \<^verbatim>\<open>subtotal\<close> and \<^verbatim>\<open>tax_amount\<close>:
  the sum is a text with two decimal points and the total is \<^verbatim>\<open>NaN\<close>, for every
  rental. \<^verbatim>\<open>NaN\<close> passes the validator \<^verbatim>\<open>min: 0\<close>, so when the charges are not negative
  and fit their column and \<^verbatim>\<open>return_mileage\<close> fits its column, the handler answers 200
  with the late fee, the charges and \<^verbatim>\<open>NaN\<close>, stores \<^verbatim>\<open>NaN\<close> as \<^verbatim>\<open>total_amount\<close> of the
  completed rental, and sets the vehicle available with \<^verbatim>\<open>current_mileage\<close> a non-zero
  \<^verbatim>\<open>return_mileage\<close>.
\<close>

theorem completeRental_total_NaN:
  assumes rental: "findByPk (rentals d) rid = Some rental" "rental_status rental = Active"
    and vehicle: "vehicles d (vehicle_id rental) = Some vehicle"
    and returnDate: "returnDate = (case body_actual_return_date body of None \<Rightarrow> now | Some t \<Rightarrow> t)"
    and late_fee: "late_fee =
        (if end_date rental < returnDate
         then of_int \<lceil>(of_int (returnDate - end_date rental) :: rat) / 86400000\<rceil>
              * daily_rate rental * (3 / 2)
         else 0)"
    and charges: "charges = or_zero (body_charges body) + late_fee"
    and valid: "0 \<le> charges" "fits_decimal charges" "body_return_mileage body \<le> 2147483647"
    and result: "completeRental now d rid body = (res, d')"
  shows "res = Response 200 ''Alquiler completado exitosamente''
                 (CompletionData late_fee charges NaN) \<and>
         findByPk (rentals d') rid =
           Some (rental\<lparr> rental_status := Completed,
                         actual_return_date := Some returnDate,
                         return_mileage := Some (body_return_mileage body),
                         additional_charges := round2 charges,
                         total_amount := NaN \<rparr>) \<and>
         vehicles d' (vehicle_id rental) =
           Some (vehicle\<lparr> status := Available,
                          current_mileage :=
                            (if body_return_mileage body = 0 then current_mileage vehicle
                             else body_return_mileage body) \<rparr>)"
proof -
  have fee: "lateFees returnDate rental = late_fee"
    by (simp add: lateFees_def late_fee ceil_days_def)
  have res: "res = Response 200 ''Alquiler completado exitosamente''
                 (CompletionData late_fee charges NaN)"
    and d': "d' = Vehicle_update
                   (d\<lparr> rentals := Rental_update (rentals d) rid
                                (\<lambda>r. r\<lparr> rental_status := Completed,
                                        actual_return_date := Some returnDate,
                                        return_mileage := Some (body_return_mileage body),
                                        additional_charges := round2 charges,
                                        total_amount := NaN \<rparr>) \<rparr>)
                   (vehicle_id rental)
                   (\<lambda>v. v\<lparr> status := Available,
                           current_mileage :=
                             (if body_return_mileage body \<noteq> 0
                              then body_return_mileage body
                              else current_mileage v) \<rparr>)"
    using result valid unfolding charges
    by (simp_all add: completeRental_def Let_def rental fee returnDate [symmetric]
        newTotalAmount_NaN min_ok_def fits_number_def store_number_def int4_max_def
        split: if_splits)
  have "findByPk (rentals d') rid =
           Some (rental\<lparr> rental_status := Completed,
                         actual_return_date := Some returnDate,
                         return_mileage := Some (body_return_mileage body),
                         additional_charges := round2 charges,
                         total_amount := NaN \<rparr>)"
    unfolding d' by (simp add: findByPk_Rental_update rental)
  moreover have "vehicles d' (vehicle_id rental) =
           Some (vehicle\<lparr> status := Available,
                          current_mileage :=
                            (if body_return_mileage body = 0 then current_mileage vehicle
                             else body_return_mileage body) \<rparr>)"
    unfolding d' using vehicle by (simp add: Vehicle_update_def)
  ultimately show ?thesis using res by simp
qed

theorem completeRental_total_NaN_witness:
  "findByPk (rentals (booked_db Active Rented)) 1 = Some (sample_rental\<lparr>rental_status := Active\<rparr>) \<and>
   fst (completeRental jan07 (booked_db Active Rented) 1 late_return) =
     Response 200 ''Alquiler completado exitosamente'' (CompletionData 150 150 NaN) \<and>
   map_option total_amount
     (findByPk (rentals (snd (completeRental jan07 (booked_db Active Rented) 1 late_return))) 1) =
     Some NaN \<and>
   map_option rental_status
     (findByPk (rentals (snd (completeRental jan07 (booked_db Active Rented) 1 late_return))) 1) =
     Some Completed \<and>
   subtotal sample_rental + tax_amount sample_rental + 150 - discount_amount sample_rental = 388"
proof -
  let ?d = "booked_db Active Rented"
  let ?r = "sample_rental\<lparr>rental_status := Active\<rparr>"
  let ?v = "sample_vehicle\<lparr>status := Rented\<rparr>"
  have a: "findByPk (rentals ?d) 1 = Some ?r" "rental_status ?r = Active"
    by (simp_all add: booked_db_def findByPk_def sample_rental_def)
  have b: "vehicles ?d (vehicle_id ?r) = Some ?v"
    by (simp add: booked_db_def sample_rental_def)
  have c: "jan07 = (case body_actual_return_date late_return of None \<Rightarrow> jan07 | Some t \<Rightarrow> t)"
    by (simp add: late_return_def)
  have e: "(150::rat) =
        (if end_date ?r < jan07
         then of_int \<lceil>(of_int (jan07 - end_date ?r) :: rat) / 86400000\<rceil>
              * daily_rate ?r * (3 / 2)
         else 0)"
    by (simp add: sample_rental_def jan05_def jan07_def)
  have f: "(150::rat) = or_zero (body_charges late_return) + 150"
    by (simp add: late_return_def or_zero_def)
  have h: "(0::rat) \<le> 150" "fits_decimal 150" "body_return_mileage late_return \<le> 2147483647"
    by (simp_all add: fits_decimal_def cents_def floor_numeral_quotient late_return_def)
  have i: "completeRental jan07 ?d 1 late_return =
             (fst (completeRental jan07 ?d 1 late_return), snd (completeRental jan07 ?d 1 late_return))"
    by simp
  from completeRental_total_NaN [OF a b c e f h i] a(1) show ?thesis
    by (simp add: sample_rental_def)
qed

section \<open>The rental lifecycle\<close>

lemma rental_id_apply_patch [simp]: "rental_id (apply_patch p r) = rental_id r"
  by (simp add: apply_patch_def)










text \<open>
  Claim C5. On a stored rental whose status is completed or cancelled, \<^verbatim>\<open>cancelRental\<close>
  and \<^verbatim>\<open>completeRental\<close> answer 400 and return the store as it was: neither the rental
  nor the vehicle is written.
\<close>

theorem terminal_rental_untouched:
  assumes "findByPk (rentals d) rid = Some rental"
    and "rental_status rental = Completed \<or> rental_status rental = Cancelled"
  shows "cancelRental d rid =
           (Response 400 ''El alquiler ya esta completado o cancelado'' NoData, d) \<and>
         completeRental now d rid body =
           (Response 400 ''El alquiler debe estar activo para completar'' NoData, d)"
  using assms by (auto simp: cancelRental_def completeRental_def)

theorem terminal_rental_untouched_witness:
  "findByPk (rentals (booked_db Cancelled Available)) 1 = Some (sample_rental\<lparr>rental_status := Cancelled\<rparr>) \<and>
   cancelRental (booked_db Cancelled Available) 1 =
     (Response 400 ''El alquiler ya esta completado o cancelado'' NoData,
      booked_db Cancelled Available) \<and>
   completeRental jan07 (booked_db Cancelled Available) 1 late_return =
     (Response 400 ''El alquiler debe estar activo para completar'' NoData,
      booked_db Cancelled Available)"
proof -
  have a: "findByPk (rentals (booked_db Cancelled Available)) 1 =
             Some (sample_rental\<lparr>rental_status := Cancelled\<rparr>)"
    by (simp add: findByPk_def booked_db_def sample_rental_def)
  have b: "rental_status (sample_rental\<lparr>rental_status := Cancelled\<rparr>) = Completed \<or>
           rental_status (sample_rental\<lparr>rental_status := Cancelled\<rparr>) = Cancelled"
    by simp
  from terminal_rental_untouched [OF a b, of jan07 late_return] a show ?thesis by simp
qed

section \<open>Soft deletes\<close>

lemma count_pos_iff: "0 < length (filter P xs) \<longleftrightarrow> (\<exists>x \<in> set xs. P x)"
  by (auto simp: filter_empty_conv)

text \<open>
  Claim C7. For a stored customer, and for a stored vehicle: when a rental of that
  customer (vehicle) has status reserved, confirmed or active, \<^verbatim>\<open>deleteCustomer\<close>
  (\<^verbatim>\<open>deleteVehicle\<close>) answers 400 and returns the store as it was; otherwise it answers
  200 and the only change is the active flag set to false (for a vehicle, together with
  the status set to inactive).
\<close>

theorem soft_delete_guarded:
  "(customers d cid = Some customer \<longrightarrow>
      (if \<exists>r \<in> set (rentals d). customer_id r = cid \<and>
                                  rental_status r \<in> {Reserved, Confirmed, Active}
       then deleteCustomer d cid =
              (Response 400 ''No se puede eliminar un cliente con alquileres activos'' NoData, d)
       else deleteCustomer d cid =
              (Response 200 ''Cliente eliminado exitosamente'' NoData,
               d\<lparr> customers := (customers d)(cid \<mapsto> customer\<lparr>customer_is_active := False\<rparr>) \<rparr>))) \<and>
   (vehicles d vid = Some vehicle \<longrightarrow>
      (if \<exists>r \<in> set (rentals d). vehicle_id r = vid \<and>
                                  rental_status r \<in> {Reserved, Confirmed, Active}
       then deleteVehicle d vid =
              (Response 400 ''No se puede eliminar un vehiculo con alquileres activos'' NoData, d)
       else deleteVehicle d vid =
              (Response 200 ''Vehiculo eliminado exitosamente'' NoData,
               d\<lparr> vehicles := (vehicles d)(vid \<mapsto>
                                 vehicle\<lparr>is_active := False, status := Inactive\<rparr>) \<rparr>)))"
proof (intro conjI impI)
  assume "customers d cid = Some customer"
  then show "if \<exists>r \<in> set (rentals d). customer_id r = cid \<and>
                                  rental_status r \<in> {Reserved, Confirmed, Active}
       then deleteCustomer d cid =
              (Response 400 ''No se puede eliminar un cliente con alquileres activos'' NoData, d)
       else deleteCustomer d cid =
              (Response 200 ''Cliente eliminado exitosamente'' NoData,
               d\<lparr> customers := (customers d)(cid \<mapsto> customer\<lparr>customer_is_active := False\<rparr>) \<rparr>)"
    by (simp add: deleteCustomer_def count_pos_iff active_states_def del: length_greater_0_conv)
next
  assume "vehicles d vid = Some vehicle"
  then show "if \<exists>r \<in> set (rentals d). vehicle_id r = vid \<and>
                                  rental_status r \<in> {Reserved, Confirmed, Active}
       then deleteVehicle d vid =
              (Response 400 ''No se puede eliminar un vehiculo con alquileres activos'' NoData, d)
       else deleteVehicle d vid =
              (Response 200 ''Vehiculo eliminado exitosamente'' NoData,
               d\<lparr> vehicles := (vehicles d)(vid \<mapsto>
                                 vehicle\<lparr>is_active := False, status := Inactive\<rparr>) \<rparr>)"
    by (simp add: deleteVehicle_def count_pos_iff active_states_def del: length_greater_0_conv)
qed

theorem soft_delete_guarded_witness:
  "customers (booked_db Reserved Rented) 1 = Some \<lparr>customer_is_active = True\<rparr> \<and>
   vehicles (booked_db Reserved Rented) 7 = Some (sample_vehicle\<lparr>status := Rented\<rparr>) \<and>
   deleteCustomer (booked_db Reserved Rented) 1 =
     (Response 400 ''No se puede eliminar un cliente con alquileres activos'' NoData,
      booked_db Reserved Rented) \<and>
   deleteVehicle (booked_db Reserved Rented) 7 =
     (Response 400 ''No se puede eliminar un vehiculo con alquileres activos'' NoData,
      booked_db Reserved Rented) \<and>
   map_option customer_is_active (customers (snd (deleteCustomer sample_db 1)) 1) = Some False \<and>
   map_option is_active (vehicles (snd (deleteVehicle sample_db 7)) 7) = Some False"
proof -
  have a: "customers (booked_db Reserved Rented) 1 = Some \<lparr>customer_is_active = True\<rparr>"
    "vehicles (booked_db Reserved Rented) 7 = Some (sample_vehicle\<lparr>status := Rented\<rparr>)"
    "customers sample_db 1 = Some \<lparr>customer_is_active = True\<rparr>"
    "vehicles sample_db 7 = Some sample_vehicle"
    by (simp_all add: booked_db_def sample_db_def)
  have b: "rentals (booked_db Reserved Rented) = [sample_rental\<lparr>rental_status := Reserved\<rparr>]"
    "rentals sample_db = []"
    by (simp_all add: booked_db_def sample_db_def)
  have c: "customer_id sample_rental = 1" "vehicle_id sample_rental = 7"
    by (simp_all add: sample_rental_def)
  from soft_delete_guarded [of "booked_db Reserved Rented" 1 "\<lparr>customer_is_active = True\<rparr>" 7
      "sample_vehicle\<lparr>status := Rented\<rparr>"]
    soft_delete_guarded [of sample_db 1 "\<lparr>customer_is_active = True\<rparr>" 7 sample_vehicle]
    a b c
  show ?thesis by simp
qed

section \<open>Mileage\<close>

lemma updateMileage_keeps:
  assumes "vehicles d w = Some v0"
  shows "\<exists>v1. vehicles (snd (updateMileage d vid mileage)) w = Some v1 \<and>
              current_mileage v0 \<le> current_mileage v1"
  using assms by (auto simp: updateMileage_def split: option.splits)

text \<open>
  Claim C10, as the handler and the column have it. On a stored vehicle \<^verbatim>\<open>updateMileage\<close>
  answers 400 and writes nothing when the supplied mileage is below the stored one, and
  replaces the stored mileage by the supplied one when it is not below it and fits the
  \<^verbatim>\<open>INTEGER\<close> column (at most 2147483647); over any sequence of \<^verbatim>\<open>updateMileage\<close>
  requests every stored vehicle stays stored and its mileage does not decrease.
\<close>

theorem updateMileage_monotone:
  "(vehicles d vid = Some vehicle \<longrightarrow>
      (mileage < current_mileage vehicle \<longrightarrow>
         updateMileage d vid mileage =
           (Response 400 ''El kilometraje no puede ser menor al actual'' NoData, d)) \<and>
      (current_mileage vehicle \<le> mileage \<and> mileage \<le> 2147483647 \<longrightarrow>
         code (fst (updateMileage d vid mileage)) = 200 \<and>
         snd (updateMileage d vid mileage) =
           d\<lparr> vehicles := (vehicles d)(vid \<mapsto> vehicle\<lparr>current_mileage := mileage\<rparr>) \<rparr>)) \<and>
   (vehicles d w = Some v0 \<longrightarrow>
      (\<exists>v1. vehicles (updateMileage_all d calls) w = Some v1 \<and>
            current_mileage v0 \<le> current_mileage v1))"
proof (intro conjI impI)
  assume "vehicles d vid = Some vehicle" "mileage < current_mileage vehicle"
  then show "updateMileage d vid mileage =
           (Response 400 ''El kilometraje no puede ser menor al actual'' NoData, d)"
    by (simp add: updateMileage_def)
next
  assume "vehicles d vid = Some vehicle"
    "current_mileage vehicle \<le> mileage \<and> mileage \<le> 2147483647"
  then show "code (fst (updateMileage d vid mileage)) = 200"
    by (simp add: updateMileage_def int4_max_def)
next
  assume "vehicles d vid = Some vehicle"
    "current_mileage vehicle \<le> mileage \<and> mileage \<le> 2147483647"
  then show "snd (updateMileage d vid mileage) =
           d\<lparr> vehicles := (vehicles d)(vid \<mapsto> vehicle\<lparr>current_mileage := mileage\<rparr>) \<rparr>"
    by (simp add: updateMileage_def int4_max_def)
next
  assume "vehicles d w = Some v0"
  then show "\<exists>v1. vehicles (updateMileage_all d calls) w = Some v1 \<and>
            current_mileage v0 \<le> current_mileage v1"
  proof (induction calls arbitrary: d v0)
    case Nil
    then show ?case by simp
  next
    case (Cons call calls)
    obtain vid' m where call: "call = (vid', m)" by (cases call)
    from updateMileage_keeps [OF Cons.prems, of vid' m] obtain v1 where
      v1: "vehicles (snd (updateMileage d vid' m)) w = Some v1" "current_mileage v0 \<le> current_mileage v1"
      by blast
    from Cons.IH [OF v1(1)] obtain v2 where
      "vehicles (updateMileage_all (snd (updateMileage d vid' m)) calls) w = Some v2"
      "current_mileage v1 \<le> current_mileage v2"
      by blast
    with v1(2) show ?case by (auto simp: call)
  qed
qed

theorem updateMileage_monotone_witness:
  "vehicles sample_db 7 = Some sample_vehicle \<and>
   updateMileage sample_db 7 900 =
     (Response 400 ''El kilometraje no puede ser menor al actual'' NoData, sample_db) \<and>
   map_option current_mileage (vehicles (snd (updateMileage sample_db 7 1500)) 7) = Some 1500 \<and>
   map_option current_mileage
     (vehicles (updateMileage_all sample_db [(7, 1500), (7, 1200), (7, 2000)]) 7) = Some 2000"
proof -
  have a: "vehicles sample_db 7 = Some sample_vehicle"
    by (simp add: sample_db_def)
  have b: "current_mileage sample_vehicle = 1000"
    by (simp add: sample_vehicle_def)
  have c: "map_option current_mileage
     (vehicles (updateMileage_all sample_db [(7, 1500), (7, 1200), (7, 2000)]) 7) = Some 2000"
    by (simp add: updateMileage_def int4_max_def sample_db_def sample_vehicle_def)
  from updateMileage_monotone [of sample_db 7 sample_vehicle 900 7 sample_vehicle "[]"]
    updateMileage_monotone [of sample_db 7 sample_vehicle 1500 7 sample_vehicle "[]"] a b c
  show ?thesis by simp
qed

text \<open>
  The claim as written has every mileage that is not below the stored one replace it.
  The route admits 2147483648, which the column does not hold: the update throws, the
  handler answers 500 and the vehicle keeps its mileage of 1000.
\<close>

theorem updateMileage_out_of_range:
  "\<not> (2147483648 < current_mileage sample_vehicle) \<and>
   updateMileage sample_db 7 2147483648 =
     (Response 500 ''Error interno del servidor'' NoData, sample_db) \<and>
   map_option current_mileage (vehicles (snd (updateMileage sample_db 7 2147483648)) 7) =
     Some 1000"
  by (simp add: updateMileage_def int4_max_def internal_error_def sample_db_def
      sample_vehicle_def)

section \<open>Maintenance\<close>







lemma maintenances_Vehicle_update [simp]: "maintenances (Vehicle_update d vid f) = maintenances d"
  by (simp add: Vehicle_update_def split: option.splits)

lemma maintenance_id_beforeUpdate [simp]: "maintenance_id (beforeUpdate today m) = maintenance_id m"
  by (simp add: beforeUpdate_def)

lemma maintenance_id_apply_mpatch [simp]: "maintenance_id (apply_mpatch p m) = maintenance_id m"
  by (simp add: apply_mpatch_def)







end
